theory Spec2Isabelle
  imports Main "HOL-Library.Multiset"
begin

section \<open>Data of the editor that the folding controller reads\<close>

text \<open>
  The development embeds \<^verbatim>\<open>src/vs/editor/contrib/folding/browser/folding.ts\<close>, the
  class \<^verbatim>\<open>FoldingController\<close>. Line numbers, columns and pixel offsets are JavaScript
  numbers; they are modelled as unbounded integers. A property access on \<^verbatim>\<open>null\<close> or
  \<^verbatim>\<open>undefined\<close> raises \<^verbatim>\<open>TypeError\<close>; every such place of the source is a branch
  returning \<open>Inl TypeError\<close>.
\<close>

datatype error = TypeError

text \<open>\<^verbatim>\<open>IRange\<close>: the line part is shared with the ranges of the folding strategy.\<close>

record line_range =
  startLineNumber :: int
  endLineNumber :: int

record irange = line_range +
  startColumn :: int
  endColumn :: int

text \<open>
  \<^verbatim>\<open>MouseTargetType\<close> is declared in \<^verbatim>\<open>editorBrowser\<close>. The controller names three of
  its members; every other member takes the \<^verbatim>\<open>default\<close> branch of the switch and is
  \<open>OTHER_TARGET\<close> here.
\<close>

datatype MouseTargetType =
  GUTTER_LINE_DECORATIONS | CONTENT_EMPTY | CONTENT_TEXT | OTHER_TARGET

text \<open>\<^verbatim>\<open>IMarginData\<close>, the detail of a gutter target.\<close>

record margin_data =
  offsetX :: int
  glyphMarginWidth :: int
  lineNumbersWidth :: int

text \<open>\<^verbatim>\<open>IEditorMouseEvent\<close>: \<^verbatim>\<open>e.target.type\<close>, \<^verbatim>\<open>e.target.range\<close> (absent: \<open>None\<close>),
  \<^verbatim>\<open>e.target.detail\<close>, \<^verbatim>\<open>e.event.leftButton\<close> and \<^verbatim>\<open>e.event.posy\<close>.\<close>

record mouse_event =
  targetType :: MouseTargetType
  targetRange :: "irange option"
  targetDetail :: margin_data
  leftButton :: bool
  posy :: int

text \<open>The text model \<^verbatim>\<open>editor.getModel()\<close>, by the three operations the controller calls.\<close>

record text_model =
  getLineCount :: int
  getLineMaxColumn :: "int \<Rightarrow> int"
  getDecorationRange :: "string \<Rightarrow> irange option"

text \<open>The result of \<^verbatim>\<open>editor.getScrolledVisiblePosition\<close>.\<close>

record visible_position =
  posTop :: int
  posHeight :: int

record selection =
  selectionStartLineNumber :: int

text \<open>
  The editor: \<^verbatim>\<open>getModel()\<close> (\<open>None\<close> when no model is attached), the \<^verbatim>\<open>top\<close> of
  \<^verbatim>\<open>dom.getDomNodePagePosition(editor.getDomNode())\<close>, \<^verbatim>\<open>getScrolledVisiblePosition\<close> of
  a position (line, column), and \<^verbatim>\<open>getSelections()\<close>.
\<close>

record editor =
  getModel :: "text_model option"
  domNodeTop :: int
  getScrolledVisiblePosition :: "int \<times> int \<Rightarrow> visible_position"
  getSelections :: "selection list"

section \<open>The folding model\<close>

text \<open>
  \<^verbatim>\<open>FoldingRegion\<close> carries the fields the controller reads: \<^verbatim>\<open>range\<close>,
  \<^verbatim>\<open>isCollapsed\<close> and \<^verbatim>\<open>editorDecorationId\<close> (\<open>None\<close> when undefined). The regions of a
  \<^verbatim>\<open>FoldingModel\<close> are a list; a reference to a region object is its index in the list.
\<close>

record folding_region =
  regionRange :: line_range
  isCollapsed :: bool
  editorDecorationId :: "string option"

type_synonym folding_model = "folding_region list"

text \<open>
  \<^verbatim>\<open>FoldingModel.getRegionAtLine\<close> is declared in \<^verbatim>\<open>foldingModel\<close>; the controller
  only calls it. It is a parameter of every function that calls it: from a model and a line
  to a region reference or none.
\<close>

type_synonym region_lookup = "folding_model \<Rightarrow> int \<Rightarrow> nat option"

text \<open>Modelled from the spec: the flip of one region's collapsed flag, the step of
  \<^verbatim>\<open>FoldingModel.toggleCollapseState\<close> (in \<^verbatim>\<open>foldingModel\<close>, not part of the sources).\<close>

definition toggleRegion :: "folding_model \<Rightarrow> nat \<Rightarrow> folding_model" where
  "toggleRegion fm r = fm[r := (fm ! r)\<lparr>isCollapsed := \<not> isCollapsed (fm ! r)\<rparr>]"

text \<open>Modelled from the spec: \<^verbatim>\<open>FoldingModel.toggleCollapseState\<close> (in
  \<^verbatim>\<open>foldingModel\<close>, not part of the sources) "flips each listed region's collapsed flag;
  no-op on empty list".\<close>

definition toggleCollapseState :: "folding_model \<Rightarrow> nat list \<Rightarrow> folding_model" where
  "toggleCollapseState fm regions = foldl toggleRegion fm regions"

text \<open>Modelled from the spec: a region "identifies a foldable span" from its start line to
  its end line; the span encloses a line between the two, both included.\<close>

definition containsLine :: "folding_region \<Rightarrow> int \<Rightarrow> bool" where
  "containsLine r ln =
     (startLineNumber (regionRange r) \<le> ln \<and> ln \<le> endLineNumber (regionRange r))"

text \<open>Modelled from the spec: \<^verbatim>\<open>FoldingModel.getAllRegionsAtLine\<close> (in
  \<^verbatim>\<open>foldingModel\<close>, not part of the sources) returns, in the order of the region sequence,
  the regions that enclose the line and satisfy the predicate.\<close>

definition getAllRegionsAtLine ::
  "folding_model \<Rightarrow> int \<Rightarrow> (folding_region \<Rightarrow> bool) \<Rightarrow> nat list" where
  "getAllRegionsAtLine fm ln p =
     filter (\<lambda>i. containsLine (fm ! i) ln \<and> p (fm ! i)) [0..<length fm]"

text \<open>Modelled from the spec: the lines a region contributes to the hidden ranges when it
  is collapsed, "all lines strictly below its start line, up to and including its end
  line".\<close>

definition strictlyInside :: "folding_region \<Rightarrow> int \<Rightarrow> bool" where
  "strictlyInside r ln =
     (startLineNumber (regionRange r) < ln \<and> ln \<le> endLineNumber (regionRange r))"

text \<open>Modelled from the spec: a hidden range is "produced solely from currently-collapsed
  regions".\<close>

definition hides :: "folding_region \<Rightarrow> int \<Rightarrow> bool" where
  "hides r ln = (isCollapsed r \<and> strictlyInside r ln)"

text \<open>Modelled from the spec: \<^verbatim>\<open>HiddenRangeModel.isHidden\<close> (in \<^verbatim>\<open>hiddenRangeModel\<close>,
  not part of the sources): a line is hidden when some collapsed region hides it.\<close>

definition isHidden :: "folding_model \<Rightarrow> int \<Rightarrow> bool" where
  "isHidden fm ln = list_ex (\<lambda>r. hides r ln) fm"

section \<open>The controller\<close>

text \<open>The entries pushed to \<^verbatim>\<open>localToDispose\<close> by \<^verbatim>\<open>onModelChanged\<close>, in its order.\<close>

datatype disposable =
  FoldingModelD | HiddenRangeModelD | HiddenRangesListener | UpdateSchedulerCancel
  | CursorChangedSchedulerD | LanguageConfigurationListener | ModelContentListener
  | CursorPositionListener | MouseDownListener | MouseUpListener

text \<open>\<^verbatim>\<open>foldingModelPromise\<close>: the promise returned by \<^verbatim>\<open>updateScheduler.trigger\<close>; it
  resolves to the folding model.\<close>

datatype promise = UpdatePromise

record mouse_down_info =
  lineNumber :: int
  iconClicked :: bool

record controller =
  editor :: editor
  isEnabled :: bool
  foldingModel :: "folding_model option"
  foldingModelPromise :: "promise option"
  localToDispose :: "disposable list"
  mouseDownInfo :: "mouse_down_info option"

text \<open>
  The callbacks the controller passes to \<^verbatim>\<open>getFoldingModel().then\<close>, with the variables
  each closure captures: the mouse-up callback (line number, icon clicked), the restore
  callback (the collapsed indexes of the state) and the reveal callback.
\<close>

datatype then_callback =
  MouseUpCallback int bool | RestoreCallback "int list" | RevealCallback

text \<open>\<^verbatim>\<open>this.getFoldingModel().then(cb)\<close>: a \<^verbatim>\<open>TypeError\<close> when the promise was never
  set, else the callback is registered.\<close>

definition getFoldingModel_then ::
  "controller \<Rightarrow> then_callback \<Rightarrow> controller \<times> (error + then_callback option)" where
  "getFoldingModel_then c cb =
     (case foldingModelPromise c of
        None \<Rightarrow> (c, Inl TypeError)
      | Some p \<Rightarrow> (c, Inr (Some cb)))"

subsection \<open>Mouse gestures\<close>

definition onEditorMouseDown :: "controller \<Rightarrow> mouse_event \<Rightarrow> controller \<times> (error + unit)" where
  "onEditorMouseDown c e =
     (let c0 = c\<lparr>mouseDownInfo := None\<rparr> in
      case targetRange e of
        None \<Rightarrow> (c0, Inr ())
      | Some rg \<Rightarrow>
          if \<not> leftButton e then (c0, Inr ())
          else
            (case targetType e of
               GUTTER_LINE_DECORATIONS \<Rightarrow>
                 (let dat = targetDetail e;
                      gutterOffsetX = offsetX dat - glyphMarginWidth dat - lineNumbersWidth dat
                  in if gutterOffsetX \<le> 12 then (c0, Inr ())
                     else (c0\<lparr>mouseDownInfo :=
                             Some \<lparr>lineNumber = startLineNumber rg, iconClicked = True\<rparr>\<rparr>, Inr ()))
             | CONTENT_EMPTY \<Rightarrow>
                 (case getModel (editor c0) of
                    None \<Rightarrow> (c0, Inl TypeError)
                  | Some model \<Rightarrow>
                      if startColumn rg = getLineMaxColumn model (startLineNumber rg) then
                        (let editorCoordsTop = domNodeTop (editor c0);
                             pos = getScrolledVisiblePosition (editor c0)
                                     (endLineNumber rg, endColumn rg)
                         in if posy e > editorCoordsTop + posTop pos + posHeight pos
                            then (c0, Inr ())
                            else (c0\<lparr>mouseDownInfo :=
                                    Some \<lparr>lineNumber = startLineNumber rg, iconClicked = False\<rparr>\<rparr>,
                                  Inr ()))
                      else (c0, Inr ()))
             | CONTENT_TEXT \<Rightarrow>
                 (case getModel (editor c0) of
                    None \<Rightarrow> (c0, Inl TypeError)
                  | Some model \<Rightarrow>
                      if startColumn rg = getLineMaxColumn model (startLineNumber rg) then
                        (c0\<lparr>mouseDownInfo :=
                              Some \<lparr>lineNumber = startLineNumber rg, iconClicked = False\<rparr>\<rparr>,
                         Inr ())
                      else (c0, Inr ()))
             | OTHER_TARGET \<Rightarrow> (c0, Inr ())))"

text \<open>\<^verbatim>\<open>onEditorMouseUp\<close> assigns no field of the controller: the controller it returns
  is the one it was given.\<close>

definition onEditorMouseUp ::
  "controller \<Rightarrow> mouse_event \<Rightarrow> controller \<times> (error + then_callback option)" where
  "onEditorMouseUp c e =
     (case mouseDownInfo c of
        None \<Rightarrow> (c, Inr None)
      | Some info \<Rightarrow>
          (case targetRange e of
             None \<Rightarrow> (c, Inr None)
           | Some rg \<Rightarrow>
               if startLineNumber rg \<noteq> lineNumber info then (c, Inr None)
               else if iconClicked info then
                 (if targetType e \<noteq> GUTTER_LINE_DECORATIONS then (c, Inr None)
                  else getFoldingModel_then c
                         (MouseUpCallback (lineNumber info) (iconClicked info)))
               else
                 (case getModel (editor c) of
                    None \<Rightarrow> (c, Inl TypeError)
                  | Some model \<Rightarrow>
                      if startColumn rg \<noteq> getLineMaxColumn model (lineNumber info)
                      then (c, Inr None)
                      else getFoldingModel_then c
                             (MouseUpCallback (lineNumber info) (iconClicked info)))))"

text \<open>The body of the mouse-up callback on the resolved folding model: the new model and
  the lines passed to \<^verbatim>\<open>reveal\<close>.\<close>

definition mouseUpCallback ::
  "region_lookup \<Rightarrow> folding_model \<Rightarrow> int \<Rightarrow> bool \<Rightarrow> folding_model \<times> int list" where
  "mouseUpCallback getRegionAtLine fm ln ic =
     (case getRegionAtLine fm ln of
        Some region \<Rightarrow>
          if ic \<or> isCollapsed (fm ! region)
          then (toggleCollapseState fm [region], [ln])
          else (fm, [])
      | None \<Rightarrow> (fm, []))"

subsection \<open>Cursor reveal\<close>

text \<open>The body of the callback of \<^verbatim>\<open>revealCursor\<close>: the loop over the selections, each
  iteration on the model the previous one left. The hidden ranges are those of the model
  at that iteration: the projector follows the folding model's changes.\<close>

fun revealCursorCallback :: "folding_model \<Rightarrow> selection list \<Rightarrow> folding_model" where
  "revealCursorCallback fm [] = fm"
| "revealCursorCallback fm (sel # selections) =
     (let ln = selectionStartLineNumber sel in
      if isHidden fm ln then
        (let toToggle = getAllRegionsAtLine fm ln
                          (\<lambda>r. isCollapsed r \<and> ln > startLineNumber (regionRange r))
         in revealCursorCallback (toggleCollapseState fm toToggle) selections)
      else revealCursorCallback fm selections)"

definition revealCursor :: "controller \<Rightarrow> controller \<times> (error + then_callback option)" where
  "revealCursor c = getFoldingModel_then c RevealCallback"

subsection \<open>View state\<close>

text \<open>
  The state is typed \<^verbatim>\<open>any\<close>. A property of it is undefined, a number, an array (of
  line numbers) or some other value; the state itself is absent (\<open>None\<close>: any falsy
  value), the empty object, or an object with the two properties.
\<close>

datatype jsval = JUndefined | JNumber int | JArray "int list" | JOther

datatype view_state = EmptyObject | ViewState jsval jsval

fun collapsedIndexes :: "view_state \<Rightarrow> jsval" where
  "collapsedIndexes EmptyObject = JUndefined"
| "collapsedIndexes (ViewState ci lc) = ci"

fun lineCount :: "view_state \<Rightarrow> jsval" where
  "lineCount EmptyObject = JUndefined"
| "lineCount (ViewState ci lc) = lc"

text \<open>A string is truthy when it is defined and not empty.\<close>

fun truthy :: "string option \<Rightarrow> bool" where
  "truthy None = False"
| "truthy (Some s) = (s \<noteq> [])"

text \<open>The loop of \<^verbatim>\<open>saveViewState\<close> over the regions.\<close>

fun saveLoop :: "text_model \<Rightarrow> folding_region list \<Rightarrow> int list" where
  "saveLoop model [] = []"
| "saveLoop model (region # regions) =
     (if isCollapsed region \<and> truthy (editorDecorationId region) then
        (case getDecorationRange model (the (editorDecorationId region)) of
           Some rg \<Rightarrow> startLineNumber rg # saveLoop model regions
         | None \<Rightarrow> saveLoop model regions)
      else saveLoop model regions)"

definition saveViewState :: "controller \<Rightarrow> error + view_state" where
  "saveViewState c =
     (case getModel (editor c) of
        None \<Rightarrow> Inr EmptyObject
      | Some model \<Rightarrow>
          (case foldingModel c of
             None \<Rightarrow> Inl TypeError
           | Some fm \<Rightarrow>
               Inr (ViewState (JArray (saveLoop model fm)) (JNumber (getLineCount model)))))"

definition restoreViewState ::
  "controller \<Rightarrow> view_state option \<Rightarrow> controller \<times> (error + then_callback option)" where
  "restoreViewState c state =
     (case getModel (editor c) of
        None \<Rightarrow> (c, Inr None)
      | Some model \<Rightarrow>
          if \<not> isEnabled c then (c, Inr None)
          else
            (case state of
               None \<Rightarrow> (c, Inr None)
             | Some s \<Rightarrow>
                 (case collapsedIndexes s of
                    JArray indexes \<Rightarrow>
                      if indexes = [] \<or> lineCount s \<noteq> JNumber (getLineCount model)
                      then (c, Inr None)
                      else getFoldingModel_then c (RestoreCallback indexes)
                  | JUndefined \<Rightarrow> (c, Inr None)
                  | JNumber n \<Rightarrow> (c, Inr None)
                  | JOther \<Rightarrow> (c, Inr None))))"

text \<open>The body of the restore callback: the loop that collects \<^verbatim>\<open>toToogle\<close>, then one
  call of \<^verbatim>\<open>toggleCollapseState\<close>.\<close>

fun toToogle :: "region_lookup \<Rightarrow> folding_model \<Rightarrow> int list \<Rightarrow> nat list" where
  "toToogle getRegionAtLine fm [] = []"
| "toToogle getRegionAtLine fm (index # indexes) =
     (case getRegionAtLine fm index of
        Some region \<Rightarrow>
          if \<not> isCollapsed (fm ! region)
          then region # toToogle getRegionAtLine fm indexes
          else toToogle getRegionAtLine fm indexes
      | None \<Rightarrow> toToogle getRegionAtLine fm indexes)"

definition restoreCallback :: "region_lookup \<Rightarrow> folding_model \<Rightarrow> int list \<Rightarrow> folding_model" where
  "restoreCallback getRegionAtLine fm indexes =
     toggleCollapseState fm (toToogle getRegionAtLine fm indexes)"

subsection \<open>Running a registered callback\<close>

text \<open>
  When the promise resolves to the folding model \<open>fm\<close>, the registered callback runs on
  it. The result is the folding model it leaves and the lines it passed to
  \<^verbatim>\<open>reveal\<close>; the reveal callback reads the editor's selections at that moment.
\<close>

fun runCallback ::
  "region_lookup \<Rightarrow> selection list \<Rightarrow> then_callback \<Rightarrow> folding_model \<Rightarrow> folding_model \<times> int list" where
  "runCallback getRegionAtLine sels (MouseUpCallback ln ic) fm =
     mouseUpCallback getRegionAtLine fm ln ic"
| "runCallback getRegionAtLine sels (RestoreCallback indexes) fm =
     (restoreCallback getRegionAtLine fm indexes, [])"
| "runCallback getRegionAtLine sels RevealCallback fm = (revealCursorCallback fm sels, [])"

text \<open>The outcome of an entry point once the promise has resolved to \<open>fm\<close>: the error it
  raised, or the folding model and the revealed lines (unchanged and none when no callback
  was registered).\<close>

fun settle ::
  "region_lookup \<Rightarrow> selection list \<Rightarrow> folding_model \<Rightarrow> error + then_callback option
     \<Rightarrow> error + folding_model \<times> int list" where
  "settle getRegionAtLine sels fm (Inl err) = Inl err"
| "settle getRegionAtLine sels fm (Inr None) = Inr (fm, [])"
| "settle getRegionAtLine sels fm (Inr (Some cb)) = Inr (runCallback getRegionAtLine sels cb fm)"

subsection \<open>Model changes\<close>

text \<open>Modelled from the spec: the constructor of \<^verbatim>\<open>FoldingModel\<close> (in
  \<^verbatim>\<open>foldingModel\<close>, not part of the sources); the adapter is recreated from scratch, with
  no region.\<close>

definition newFoldingModel :: folding_model where
  "newFoldingModel = []"

text \<open>\<^verbatim>\<open>onModelContentChanged\<close> triggers the update scheduler and keeps its promise.\<close>

definition onModelContentChanged :: "controller \<Rightarrow> controller" where
  "onModelContentChanged c = c\<lparr>foldingModelPromise := Some UpdatePromise\<rparr>"

text \<open>\<^verbatim>\<open>onModelChanged\<close>: \<^verbatim>\<open>dispose(this.localToDispose)\<close> returns the empty array; with
  folding disabled or no model attached the handler returns there.\<close>

definition onModelChanged :: "controller \<Rightarrow> controller" where
  "onModelChanged c =
     (let c0 = c\<lparr>localToDispose := []\<rparr> in
      if \<not> isEnabled c0 \<or> getModel (editor c0) = None then c0
      else
        onModelContentChanged
          (c0\<lparr>foldingModel := Some newFoldingModel,
              localToDispose :=
                [FoldingModelD, HiddenRangeModelD, HiddenRangesListener, UpdateSchedulerCancel,
                 CursorChangedSchedulerD, LanguageConfigurationListener, ModelContentListener,
                 CursorPositionListener, MouseDownListener, MouseUpListener]\<rparr>))"

subsection \<open>Computing the ranges\<close>

text \<open>The candidate ranges of the folding strategy: a line range and its nesting level.\<close>

record indent_range = line_range +
  nestingLevel :: nat

text \<open>Modelled from the spec: the number of candidates of a nesting level below \<open>d\<close>,
  used by the size-limiting policy of \<^verbatim>\<open>limitByIndent\<close>.\<close>

definition countBelow :: "indent_range list \<Rightarrow> nat \<Rightarrow> nat" where
  "countBelow ranges d = length (filter (\<lambda>r. nestingLevel r < d) ranges)"

text \<open>Modelled from the spec: the deepest bound, at most \<open>d\<close>, such that the candidates
  below it fit the maximum: the policy "favors shallower nesting when truncating".\<close>

fun findMaxIndent :: "indent_range list \<Rightarrow> nat \<Rightarrow> nat \<Rightarrow> nat" where
  "findMaxIndent ranges maxEntries 0 = 0"
| "findMaxIndent ranges maxEntries (Suc d) =
     (if countBelow ranges (Suc d) \<le> maxEntries then Suc d
      else findMaxIndent ranges maxEntries d)"

text \<open>Modelled from the spec: \<^verbatim>\<open>limitByIndent\<close> (in \<^verbatim>\<open>indentFoldStrategy\<close>, not part
  of the sources) "caps the candidate count at a fixed maximum via a size-limiting policy
  that favors shallower nesting when truncating". A list within the maximum is returned as
  it is; otherwise the candidates below the deepest nesting bound that still fits the
  maximum are kept, in their order.\<close>

definition limitByIndent :: "indent_range list \<Rightarrow> nat \<Rightarrow> indent_range list" where
  "limitByIndent ranges maxEntries =
     (if length ranges \<le> maxEntries then ranges
      else
        (let maxIndent = findMaxIndent ranges maxEntries
                           (Suc (foldr max (map nestingLevel ranges) 0))
         in filter (\<lambda>r. nestingLevel r < maxIndent) ranges))"

definition MAX_FOLDING_REGIONS :: nat where
  "MAX_FOLDING_REGIONS = 5000"

text \<open>
  \<^verbatim>\<open>FoldingController.computeRanges\<close>. The strategy's \<^verbatim>\<open>computeRanges(editorModel)\<close> (in
  \<^verbatim>\<open>indentFoldStrategy\<close>) is the parameter \<open>strategy\<close>. \<^verbatim>\<open>Array.sort\<close> with the
  comparator \<^verbatim>\<open>r1.startLineNumber - r2.startLineNumber\<close> is a sort by the key
  \<^verbatim>\<open>startLineNumber\<close>.
\<close>

definition computeRanges ::
  "(text_model \<Rightarrow> indent_range list) \<Rightarrow> controller \<Rightarrow> indent_range list" where
  "computeRanges strategy c =
     (case getModel (editor c) of
        Some editorModel \<Rightarrow>
          sort_key startLineNumber (limitByIndent (strategy editorModel) MAX_FOLDING_REGIONS)
      | None \<Rightarrow> [])"

section \<open>Example data\<close>

text \<open>
  A buffer of 30 lines, each of 9 characters, with two regions: lines 5 to 8 (expanded,
  decoration \<open>d1\<close>) and lines 10 to 20 (collapsed, decoration \<open>d2\<close>). The example lookup
  returns the first region that starts at the line.
\<close>

definition exRange :: "int \<Rightarrow> int \<Rightarrow> line_range" where
  "exRange s e = \<lparr>startLineNumber = s, endLineNumber = e\<rparr>"

definition exIRange :: "int \<Rightarrow> int \<Rightarrow> irange" where
  "exIRange ln col =
     \<lparr>startLineNumber = ln, endLineNumber = ln, startColumn = col, endColumn = col\<rparr>"

definition exRegions :: folding_model where
  "exRegions =
     [\<lparr>regionRange = exRange 5 8, isCollapsed = False, editorDecorationId = Some ''d1''\<rparr>,
      \<lparr>regionRange = exRange 10 20, isCollapsed = True, editorDecorationId = Some ''d2''\<rparr>]"

definition exModel :: text_model where
  "exModel =
     \<lparr>getLineCount = 30,
      getLineMaxColumn = (\<lambda>ln. 10),
      getDecorationRange =
        (\<lambda>d. if d = ''d1'' then Some (exIRange 5 10)
             else if d = ''d2'' then Some (exIRange 10 10) else None)\<rparr>"

definition exEditor :: editor where
  "exEditor =
     \<lparr>getModel = Some exModel,
      domNodeTop = 0,
      getScrolledVisiblePosition = (\<lambda>p. \<lparr>posTop = 18 * (fst p - 1), posHeight = 18\<rparr>),
      getSelections = [\<lparr>selectionStartLineNumber = 15\<rparr>]\<rparr>"

definition exController :: controller where
  "exController =
     \<lparr>editor = exEditor, isEnabled = True, foldingModel = Some exRegions,
      foldingModelPromise = Some UpdatePromise,
      localToDispose = [MouseDownListener, MouseUpListener],
      mouseDownInfo = None\<rparr>"

text \<open>The regions of the example with every region expanded: the folding model of a
  freshly attached buffer with the same content.\<close>

definition exFresh :: folding_model where
  "exFresh = map (\<lambda>r. r\<lparr>isCollapsed := False\<rparr>) exRegions"

text \<open>The same controller with no model attached to the editor.\<close>

definition exDetached :: controller where
  "exDetached = exController\<lparr>editor := exEditor\<lparr>getModel := None\<rparr>\<rparr>"

fun exFind :: "folding_region list \<Rightarrow> int \<Rightarrow> nat \<Rightarrow> nat option" where
  "exFind [] ln i = None"
| "exFind (r # rs) ln i =
     (if startLineNumber (regionRange r) = ln then Some i else exFind rs ln (Suc i))"

definition exLookup :: region_lookup where
  "exLookup fm ln = exFind fm ln 0"

text \<open>A left click in the gutter of a line, 20 pixels into the line decorations, and a
  left click in the text of a line at a column.\<close>

definition exGutterClick :: "int \<Rightarrow> mouse_event" where
  "exGutterClick ln =
     \<lparr>targetType = GUTTER_LINE_DECORATIONS, targetRange = Some (exIRange ln 1),
      targetDetail = \<lparr>offsetX = 80, glyphMarginWidth = 20, lineNumbersWidth = 40\<rparr>,
      leftButton = True, posy = 18 * ln - 9\<rparr>"

definition exTextClick :: "int \<Rightarrow> int \<Rightarrow> mouse_event" where
  "exTextClick ln col =
     \<lparr>targetType = CONTENT_TEXT, targetRange = Some (exIRange ln col),
      targetDetail = \<lparr>offsetX = 0, glyphMarginWidth = 0, lineNumbersWidth = 0\<rparr>,
      leftButton = True, posy = 18 * ln - 9\<rparr>"

text \<open>A candidate range of the folding strategy.\<close>

definition exIndentRange :: "int \<Rightarrow> int \<Rightarrow> nat \<Rightarrow> indent_range" where
  "exIndentRange s e n = \<lparr>startLineNumber = s, endLineNumber = e, nestingLevel = n\<rparr>"

text \<open>6000 candidates: 5000 of nesting level 0 and 1000 of nesting level 1; and a strategy
  that returns them for every model.\<close>

definition exShallow :: indent_range where
  "exShallow = exIndentRange 1 9 0"

definition exDeep :: indent_range where
  "exDeep = exIndentRange 2 5 1"

definition exCandidates :: "indent_range list" where
  "exCandidates = replicate 5000 exShallow @ replicate 1000 exDeep"

definition exStrategy :: "text_model \<Rightarrow> indent_range list" where
  "exStrategy model = exCandidates"

text \<open>A strategy that returns three candidates, not in the order of their start lines.\<close>

definition exSmallStrategy :: "text_model \<Rightarrow> indent_range list" where
  "exSmallStrategy model = [exIndentRange 6 8 1, exIndentRange 1 9 0, exIndentRange 2 5 1]"

section \<open>Evaluation of the examples\<close>

lemma ex_down_gutter:
  "onEditorMouseDown exController (exGutterClick ln) =
     (exController\<lparr>mouseDownInfo := Some \<lparr>lineNumber = ln, iconClicked = True\<rparr>\<rparr>, Inr ())"
  by (simp add: onEditorMouseDown_def exGutterClick_def exIRange_def)

lemma ex_down_text:
  "onEditorMouseDown exController (exTextClick ln 10) =
     (exController\<lparr>mouseDownInfo := Some \<lparr>lineNumber = ln, iconClicked = False\<rparr>\<rparr>, Inr ())"
  by (simp add: onEditorMouseDown_def exTextClick_def exIRange_def exController_def exEditor_def
      exModel_def)

lemma ex_up_gutter:
  "onEditorMouseUp (exController\<lparr>mouseDownInfo := Some \<lparr>lineNumber = ln, iconClicked = True\<rparr>\<rparr>)
     (exGutterClick ln') =
   (exController\<lparr>mouseDownInfo := Some \<lparr>lineNumber = ln, iconClicked = True\<rparr>\<rparr>,
    Inr (if ln' = ln then Some (MouseUpCallback ln True) else None))"
  by (simp add: onEditorMouseUp_def exGutterClick_def exIRange_def getFoldingModel_then_def
      exController_def)

lemma ex_up_text:
  "onEditorMouseUp (exController\<lparr>mouseDownInfo := Some \<lparr>lineNumber = ln, iconClicked = False\<rparr>\<rparr>)
     (exTextClick ln' col) =
   (exController\<lparr>mouseDownInfo := Some \<lparr>lineNumber = ln, iconClicked = False\<rparr>\<rparr>,
    Inr (if ln' = ln \<and> col = 10 then Some (MouseUpCallback ln False) else None))"
  by (simp add: onEditorMouseUp_def exTextClick_def exIRange_def getFoldingModel_then_def
      exController_def exEditor_def exModel_def)

lemma ex_getModel: "getModel (editor exController) = Some exModel"
  by (simp add: exController_def exEditor_def)

lemma ex_lookup_5: "exLookup exRegions 5 = Some 0"
  by (simp add: exLookup_def exRegions_def exRange_def)

lemma ex_lookup_10: "exLookup exRegions 10 = Some 1"
  by (simp add: exLookup_def exRegions_def exRange_def)

lemma ex_regions_length: "length exRegions = 2"
  by (simp add: exRegions_def)

lemma ex_region_0: "isCollapsed (exRegions ! 0) = False"
  by (simp add: exRegions_def)

lemma ex_region_1: "isCollapsed (exRegions ! 1) = True"
  by (simp add: exRegions_def)



lemma ex_promise: "foldingModelPromise exController = Some UpdatePromise"
  by (simp add: exController_def)






lemma ex_reveal_settle:
  "settle exLookup (getSelections (editor exController)) exRegions (snd (revealCursor exController))
     = Inr (exFresh, [])"
  by (simp add: revealCursor_def getFoldingModel_then_def ex_promise)
     (simp add: exController_def exEditor_def exRegions_def exFresh_def exRange_def Let_def
        isHidden_def hides_def strictlyInside_def getAllRegionsAtLine_def containsLine_def
        toggleCollapseState_def toggleRegion_def)

lemma ex_lineCount: "getLineCount exModel = 30"
  by (simp add: exModel_def)

lemma ex_detached_model: "getModel (editor exDetached) = None"
  by (simp add: exDetached_def)

lemma ex_limitByIndent:
  "limitByIndent [exIndentRange 1 9 0, exIndentRange 2 5 1, exIndentRange 6 8 1] 2 =
     [exIndentRange 1 9 0]"
  by (simp add: limitByIndent_def countBelow_def exIndentRange_def)

section \<open>Mouse gestures\<close>

lemma toggle_single:
  "toggleCollapseState fm [r] = fm[r := (fm ! r)\<lparr>isCollapsed := \<not> isCollapsed (fm ! r)\<rparr>]"
  by (simp add: toggleCollapseState_def toggleRegion_def)

lemma mouseUp_accepted_shape:
  assumes "snd (onEditorMouseUp c e) = Inr (Some cb)" and "mouseDownInfo c = Some info"
  shows "cb = MouseUpCallback (lineNumber info) (iconClicked info)"
  using assms
  by (auto simp: onEditorMouseUp_def getFoldingModel_then_def split: option.splits if_splits)

text \<open>
  Claim C1. Let a mouse-up be accepted for the gesture recorded at line \<open>L\<close>, and let the
  promise resolve to the folding model \<open>fm\<close>. If the lookup finds a region at \<open>L\<close> and
  the gesture was an icon click or the region is collapsed, the resulting model is \<open>fm\<close>
  with the collapsed flag of exactly that region flipped, and line \<open>L\<close> is revealed. If the
  gesture was not an icon click and the region at \<open>L\<close> is expanded, or there is no region
  at \<open>L\<close>, the model is unchanged and nothing is revealed.
\<close>

theorem mouseUp_accepted_toggles:
  assumes accepted: "snd (onEditorMouseUp c e) = Inr (Some cb)"
    and info: "mouseDownInfo c = Some info"
    and settled: "settle G sels fm (snd (onEditorMouseUp c e)) = Inr (fm', revealed)"
  shows "(G fm (lineNumber info) = Some r \<and> r < length fm \<and>
            (iconClicked info \<or> isCollapsed (fm ! r)) \<longrightarrow>
          fm' = fm[r := (fm ! r)\<lparr>isCollapsed := \<not> isCollapsed (fm ! r)\<rparr>] \<and>
          isCollapsed (fm' ! r) = (\<not> isCollapsed (fm ! r)) \<and>
          (\<forall>j. j \<noteq> r \<longrightarrow> fm' ! j = fm ! j) \<and>
          revealed = [lineNumber info]) \<and>
         (G fm (lineNumber info) = Some r \<and> \<not> iconClicked info \<and> \<not> isCollapsed (fm ! r) \<longrightarrow>
          fm' = fm \<and> revealed = []) \<and>
         (G fm (lineNumber info) = None \<longrightarrow> fm' = fm \<and> revealed = [])"
proof -
  have cb: "cb = MouseUpCallback (lineNumber info) (iconClicked info)"
    using accepted info by (rule mouseUp_accepted_shape)
  have run: "mouseUpCallback G fm (lineNumber info) (iconClicked info) = (fm', revealed)"
    using settled accepted cb by simp
  show ?thesis
    using run by (auto simp: mouseUpCallback_def toggle_single split: option.splits if_splits)
qed

text \<open>Witness for C1: a gutter click on line 5 collapses the expanded region that starts
  there and reveals line 5; an end-of-line click on line 10 expands the collapsed region
  that starts there and reveals line 10; an end-of-line click on line 5 changes nothing.\<close>

theorem mouseUp_accepted_toggles_witness:
  "settle exLookup [] exRegions
     (snd (onEditorMouseUp (fst (onEditorMouseDown exController (exGutterClick 5))) (exGutterClick 5)))
     = Inr (exRegions[0 := (exRegions ! 0)\<lparr>isCollapsed := True\<rparr>], [5]) \<and>
   exLookup exRegions 5 = Some 0 \<and> 0 < length exRegions \<and>
   isCollapsed ((exRegions[0 := (exRegions ! 0)\<lparr>isCollapsed := True\<rparr>]) ! 0) =
     (\<not> isCollapsed (exRegions ! 0)) \<and>
   settle exLookup [] exRegions
     (snd (onEditorMouseUp (fst (onEditorMouseDown exController (exTextClick 10 10)))
            (exTextClick 10 10)))
     = Inr (exRegions[1 := (exRegions ! 1)\<lparr>isCollapsed := False\<rparr>], [10]) \<and>
   exLookup exRegions 10 = Some 1 \<and> 1 < length exRegions \<and>
   isCollapsed ((exRegions[1 := (exRegions ! 1)\<lparr>isCollapsed := False\<rparr>]) ! 1) =
     (\<not> isCollapsed (exRegions ! 1)) \<and>
   \<not> isCollapsed (exRegions ! 0) \<and>
   settle exLookup [] exRegions
     (snd (onEditorMouseUp (fst (onEditorMouseDown exController (exTextClick 5 10)))
            (exTextClick 5 10)))
     = Inr (exRegions, [])"
proof -
  let ?g = "fst (onEditorMouseDown exController (exGutterClick 5))"
  let ?gi = "\<lparr>lineNumber = 5, iconClicked = True\<rparr>"
  have ga: "snd (onEditorMouseUp ?g (exGutterClick 5)) = Inr (Some (MouseUpCallback 5 True))"
    by (simp add: ex_down_gutter ex_up_gutter)
  have gi: "mouseDownInfo ?g = Some ?gi"
    by (simp add: ex_down_gutter)
  have gs0: "settle exLookup [] exRegions (Inr (Some (MouseUpCallback 5 True)))
     = Inr (exRegions[0 := (exRegions ! 0)\<lparr>isCollapsed := True\<rparr>], [5])"
    by (simp add: mouseUpCallback_def toggle_single ex_lookup_5 ex_region_0)
  have gs: "settle exLookup [] exRegions (snd (onEditorMouseUp ?g (exGutterClick 5)))
     = Inr (exRegions[0 := (exRegions ! 0)\<lparr>isCollapsed := True\<rparr>], [5])"
    by (simp only: ga gs0)
  have l0: "0 < length exRegions" and l1: "1 < length exRegions"
    by (simp_all add: ex_regions_length)
  have gp: "exLookup exRegions (lineNumber ?gi) = Some 0 \<and> 0 < length exRegions \<and>
      (iconClicked ?gi \<or> isCollapsed (exRegions ! 0))"
    using l0 by (simp add: ex_lookup_5)
  have gn: "isCollapsed ((exRegions[0 := (exRegions ! 0)\<lparr>isCollapsed := True\<rparr>]) ! 0) =
     (\<not> isCollapsed (exRegions ! 0))"
    using mouseUp_accepted_toggles [OF ga gi gs, of 0] gp by blast
  let ?t = "fst (onEditorMouseDown exController (exTextClick 10 10))"
  let ?ti = "\<lparr>lineNumber = 10, iconClicked = False\<rparr>"
  have ta: "snd (onEditorMouseUp ?t (exTextClick 10 10)) = Inr (Some (MouseUpCallback 10 False))"
    by (simp add: ex_down_text ex_up_text)
  have ti: "mouseDownInfo ?t = Some ?ti"
    by (simp add: ex_down_text)
  have c1: "isCollapsed (exRegions ! 1)"
    using ex_region_1 by simp
  have ts0: "settle exLookup [] exRegions (Inr (Some (MouseUpCallback 10 False)))
     = Inr (exRegions[1 := (exRegions ! 1)\<lparr>isCollapsed := False\<rparr>], [10])"
    using c1 by (simp add: mouseUpCallback_def toggle_single ex_lookup_10)
  have ts: "settle exLookup [] exRegions (snd (onEditorMouseUp ?t (exTextClick 10 10)))
     = Inr (exRegions[1 := (exRegions ! 1)\<lparr>isCollapsed := False\<rparr>], [10])"
    by (simp only: ta ts0)
  have tp: "exLookup exRegions (lineNumber ?ti) = Some 1 \<and> 1 < length exRegions \<and>
      (iconClicked ?ti \<or> isCollapsed (exRegions ! 1))"
    using l1 c1 by (simp add: ex_lookup_10)
  have tn: "isCollapsed ((exRegions[1 := (exRegions ! 1)\<lparr>isCollapsed := False\<rparr>]) ! 1) =
     (\<not> isCollapsed (exRegions ! 1))"
    using mouseUp_accepted_toggles [OF ta ti ts, of 1] tp by blast
  let ?e = "fst (onEditorMouseDown exController (exTextClick 5 10))"
  let ?ei = "\<lparr>lineNumber = 5, iconClicked = False\<rparr>"
  have ea: "snd (onEditorMouseUp ?e (exTextClick 5 10)) = Inr (Some (MouseUpCallback 5 False))"
    by (simp add: ex_down_text ex_up_text)
  have ei: "mouseDownInfo ?e = Some ?ei"
    by (simp add: ex_down_text)
  have c0: "\<not> isCollapsed (exRegions ! 0)"
    by (simp add: ex_region_0)
  obtain fm' revealed where
    es: "settle exLookup [] exRegions (snd (onEditorMouseUp ?e (exTextClick 5 10)))
           = Inr (fm', revealed)"
    unfolding ea by (cases "mouseUpCallback exLookup exRegions 5 False") simp
  have ep: "exLookup exRegions (lineNumber ?ei) = Some 0 \<and> \<not> iconClicked ?ei \<and>
      \<not> isCollapsed (exRegions ! 0)"
    using c0 by (simp add: ex_lookup_5)
  have "fm' = exRegions \<and> revealed = []"
    using mouseUp_accepted_toggles [OF ea ei es, of 0] ep by blast
  then have en: "settle exLookup [] exRegions (snd (onEditorMouseUp ?e (exTextClick 5 10)))
           = Inr (exRegions, [])"
    using es by simp
  from gs l0 gn ex_lookup_5 ts l1 tn ex_lookup_10 c0 en show ?thesis
    by blast
qed

text \<open>
  Claim C2, as amended. With a gesture recorded at line \<open>L\<close>, a mouse-up registers the
  toggle callback only if its target range starts on line \<open>L\<close> and, for an icon click,
  the target is the gutter's line decorations, or, for a non-icon click, the range starts at
  the maximal column of line \<open>L\<close>. On a mismatch (no target range, another line, another
  target type or another column) no callback is registered and the folding model does not
  change; the controller, with the recorded gesture, is left as it was.
\<close>

theorem mouseUp_acceptance:
  assumes info: "mouseDownInfo c = Some info"
  shows "(snd (onEditorMouseUp c e) = Inr (Some cb) \<longrightarrow>
           cb = MouseUpCallback (lineNumber info) (iconClicked info) \<and>
           (\<exists>rg. targetRange e = Some rg \<and> startLineNumber rg = lineNumber info \<and>
              (if iconClicked info then targetType e = GUTTER_LINE_DECORATIONS
               else (\<exists>model. getModel (editor c) = Some model \<and>
                      startColumn rg = getLineMaxColumn model (lineNumber info))))) \<and>
         (targetRange e = None \<or>
          (\<exists>rg. targetRange e = Some rg \<and>
             (startLineNumber rg \<noteq> lineNumber info \<or>
              (iconClicked info \<and> targetType e \<noteq> GUTTER_LINE_DECORATIONS) \<or>
              (\<not> iconClicked info \<and>
                 (\<exists>model. getModel (editor c) = Some model \<and>
                    startColumn rg \<noteq> getLineMaxColumn model (lineNumber info))))) \<longrightarrow>
          onEditorMouseUp c e = (c, Inr None) \<and>
          settle G sels fm (snd (onEditorMouseUp c e)) = Inr (fm, []))"
  using info
  by (auto simp: onEditorMouseUp_def getFoldingModel_then_def split: option.splits if_splits)

text \<open>Witness for C2: after an end-of-line click down on line 10, a mouse-up on column 4
  of the same line is a mismatch, and a mouse-up at the end of line 10 is accepted.\<close>

theorem mouseUp_acceptance_witness:
  "mouseDownInfo (fst (onEditorMouseDown exController (exTextClick 10 10)))
     = Some \<lparr>lineNumber = 10, iconClicked = False\<rparr> \<and>
   targetRange (exTextClick 10 4) = Some (exIRange 10 4) \<and>
   getModel (editor (fst (onEditorMouseDown exController (exTextClick 10 10)))) = Some exModel \<and>
   startColumn (exIRange 10 4) \<noteq> getLineMaxColumn exModel 10 \<and>
   onEditorMouseUp (fst (onEditorMouseDown exController (exTextClick 10 10))) (exTextClick 10 4)
     = (fst (onEditorMouseDown exController (exTextClick 10 10)), Inr None) \<and>
   settle exLookup [] exRegions
     (snd (onEditorMouseUp (fst (onEditorMouseDown exController (exTextClick 10 10)))
            (exTextClick 10 4)))
     = Inr (exRegions, []) \<and>
   snd (onEditorMouseUp (fst (onEditorMouseDown exController (exTextClick 10 10)))
          (exTextClick 10 10))
     = Inr (Some (MouseUpCallback 10 False)) \<and>
   (\<exists>rg. targetRange (exTextClick 10 10) = Some rg \<and> startLineNumber rg = 10 \<and>
      (\<exists>model. getModel (editor (fst (onEditorMouseDown exController (exTextClick 10 10))))
                 = Some model \<and>
         startColumn rg = getLineMaxColumn model 10))"
proof -
  let ?c = "fst (onEditorMouseDown exController (exTextClick 10 10))"
  let ?info = "\<lparr>lineNumber = 10, iconClicked = False\<rparr>"
  have i: "mouseDownInfo ?c = Some ?info"
    by (simp add: ex_down_text)
  have r: "targetRange (exTextClick 10 4) = Some (exIRange 10 4)"
    by (simp add: exTextClick_def)
  have m: "getModel (editor ?c) = Some exModel"
    by (simp add: ex_down_text ex_getModel)
  have d: "startColumn (exIRange 10 4) \<noteq> getLineMaxColumn exModel (lineNumber ?info)"
    by (simp add: exIRange_def exModel_def)
  have d': "startColumn (exIRange 10 4) \<noteq> getLineMaxColumn exModel 10"
    using d by simp
  have p: "targetRange (exTextClick 10 4) = None \<or>
          (\<exists>rg. targetRange (exTextClick 10 4) = Some rg \<and>
             (startLineNumber rg \<noteq> lineNumber ?info \<or>
              (iconClicked ?info \<and> targetType (exTextClick 10 4) \<noteq> GUTTER_LINE_DECORATIONS) \<or>
              (\<not> iconClicked ?info \<and>
                 (\<exists>model. getModel (editor ?c) = Some model \<and>
                    startColumn rg \<noteq> getLineMaxColumn model (lineNumber ?info)))))"
    using r m d by simp
  from mouseUp_acceptance [OF i, of "exTextClick 10 4" _ exLookup "[]" exRegions] p
  have mismatch: "onEditorMouseUp ?c (exTextClick 10 4) = (?c, Inr None) \<and>
        settle exLookup [] exRegions (snd (onEditorMouseUp ?c (exTextClick 10 4))) = Inr (exRegions, [])"
    by blast
  have a: "snd (onEditorMouseUp ?c (exTextClick 10 10)) = Inr (Some (MouseUpCallback 10 False))"
    by (simp add: ex_down_text ex_up_text)
  from mouseUp_acceptance [OF i, of "exTextClick 10 10" "MouseUpCallback 10 False"] a
  have "\<exists>rg. targetRange (exTextClick 10 10) = Some rg \<and> startLineNumber rg = lineNumber ?info \<and>
          (if iconClicked ?info then targetType (exTextClick 10 10) = GUTTER_LINE_DECORATIONS
           else (\<exists>model. getModel (editor ?c) = Some model \<and>
                  startColumn rg = getLineMaxColumn model (lineNumber ?info)))"
    by blast
  then have accepted: "\<exists>rg. targetRange (exTextClick 10 10) = Some rg \<and> startLineNumber rg = 10 \<and>
      (\<exists>model. getModel (editor ?c) = Some model \<and> startColumn rg = getLineMaxColumn model 10)"
    by simp
  from i r m d' mismatch a accepted show ?thesis
    by blast
qed

text \<open>Counterexample to C2 as stated: after a gutter click down on line 5, the mouse-up on
  line 6 is a mismatch, yet the gesture is not discarded: it is still recorded, and a
  further mouse-up on the gutter of line 5 is accepted.\<close>

theorem mouseUp_mismatch_keeps_gesture:
  "onEditorMouseUp (fst (onEditorMouseDown exController (exGutterClick 5))) (exGutterClick 6)
     = (fst (onEditorMouseDown exController (exGutterClick 5)), Inr None) \<and>
   mouseDownInfo
     (fst (onEditorMouseUp (fst (onEditorMouseDown exController (exGutterClick 5))) (exGutterClick 6)))
     = Some \<lparr>lineNumber = 5, iconClicked = True\<rparr> \<and>
   snd (onEditorMouseUp
          (fst (onEditorMouseUp (fst (onEditorMouseDown exController (exGutterClick 5)))
                  (exGutterClick 6)))
          (exGutterClick 5))
     = Inr (Some (MouseUpCallback 5 True))"
  by (simp add: ex_down_gutter ex_up_gutter)

text \<open>
  Claim C3. If a mouse-down records a gesture, then it is a left click with a target range,
  the recorded line is the start line of the range, and either the target is the gutter's
  line decorations with a gutter offset above 12 and the gesture is an icon click, or the
  target is empty content or text at the maximal column of that line and the gesture is not
  an icon click. Every other mouse-down records nothing.
\<close>

theorem mouseDown_records_only_if:
  assumes "mouseDownInfo (fst (onEditorMouseDown c e)) = Some info"
  shows "\<exists>rg. targetRange e = Some rg \<and> leftButton e \<and> lineNumber info = startLineNumber rg \<and>
     ((targetType e = GUTTER_LINE_DECORATIONS \<and>
        offsetX (targetDetail e) - glyphMarginWidth (targetDetail e)
          - lineNumbersWidth (targetDetail e) > 12 \<and>
        iconClicked info)
      \<or> ((targetType e = CONTENT_EMPTY \<or> targetType e = CONTENT_TEXT) \<and>
          (\<exists>model. getModel (editor c) = Some model \<and>
             startColumn rg = getLineMaxColumn model (startLineNumber rg)) \<and>
          \<not> iconClicked info))"
  using assms
  by (auto simp: onEditorMouseDown_def Let_def split: option.splits if_splits MouseTargetType.splits)

text \<open>Witness for C3: the gutter click on line 5, at gutter offset 20, and the click on
  the text of line 10 at its maximal column.\<close>

theorem mouseDown_records_only_if_witness:
  "mouseDownInfo (fst (onEditorMouseDown exController (exGutterClick 5))) =
     Some \<lparr>lineNumber = 5, iconClicked = True\<rparr> \<and>
   (\<exists>rg. targetRange (exGutterClick 5) = Some rg \<and> leftButton (exGutterClick 5) \<and>
      5 = startLineNumber rg \<and>
      targetType (exGutterClick 5) = GUTTER_LINE_DECORATIONS \<and>
      offsetX (targetDetail (exGutterClick 5)) - glyphMarginWidth (targetDetail (exGutterClick 5))
        - lineNumbersWidth (targetDetail (exGutterClick 5)) > 12) \<and>
   mouseDownInfo (fst (onEditorMouseDown exController (exTextClick 10 10))) =
     Some \<lparr>lineNumber = 10, iconClicked = False\<rparr> \<and>
   (\<exists>rg. targetRange (exTextClick 10 10) = Some rg \<and> leftButton (exTextClick 10 10) \<and>
      10 = startLineNumber rg \<and>
      targetType (exTextClick 10 10) = CONTENT_TEXT \<and>
      (\<exists>model. getModel (editor exController) = Some model \<and>
         startColumn rg = getLineMaxColumn model (startLineNumber rg)))"
proof -
  have h: "mouseDownInfo (fst (onEditorMouseDown exController (exGutterClick 5))) =
     Some \<lparr>lineNumber = 5, iconClicked = True\<rparr>"
    by (simp add: ex_down_gutter)
  have t: "targetType (exGutterClick 5) \<noteq> CONTENT_EMPTY" "targetType (exGutterClick 5) \<noteq> CONTENT_TEXT"
    by (simp_all add: exGutterClick_def)
  from mouseDown_records_only_if [OF h] t
  have g: "\<exists>rg. targetRange (exGutterClick 5) = Some rg \<and> leftButton (exGutterClick 5) \<and>
      5 = startLineNumber rg \<and>
      targetType (exGutterClick 5) = GUTTER_LINE_DECORATIONS \<and>
      offsetX (targetDetail (exGutterClick 5)) - glyphMarginWidth (targetDetail (exGutterClick 5))
        - lineNumbersWidth (targetDetail (exGutterClick 5)) > 12"
    by auto
  have h': "mouseDownInfo (fst (onEditorMouseDown exController (exTextClick 10 10))) =
     Some \<lparr>lineNumber = 10, iconClicked = False\<rparr>"
    by (simp add: ex_down_text)
  have t': "targetType (exTextClick 10 10) = CONTENT_TEXT"
    by (simp add: exTextClick_def)
  from mouseDown_records_only_if [OF h'] t'
  have x: "\<exists>rg. targetRange (exTextClick 10 10) = Some rg \<and> leftButton (exTextClick 10 10) \<and>
      10 = startLineNumber rg \<and>
      targetType (exTextClick 10 10) = CONTENT_TEXT \<and>
      (\<exists>model. getModel (editor exController) = Some model \<and>
         startColumn rg = getLineMaxColumn model (startLineNumber rg))"
    by auto
  from h g h' x show ?thesis
    by blast
qed

text \<open>
  Claim C10. After a mouse-down that is not a left-button press, or whose target has no
  range, the gesture state is empty, the handler raised nothing, and any mouse-up that
  follows registers no callback: the folding model is unchanged and nothing is revealed.
\<close>

theorem mouseDown_not_left_or_no_range:
  assumes "\<not> leftButton e \<or> targetRange e = None"
  shows "mouseDownInfo (fst (onEditorMouseDown c e)) = None \<and>
         snd (onEditorMouseDown c e) = Inr () \<and>
         onEditorMouseUp (fst (onEditorMouseDown c e)) e' = (fst (onEditorMouseDown c e), Inr None) \<and>
         settle G sels fm (snd (onEditorMouseUp (fst (onEditorMouseDown c e)) e')) = Inr (fm, [])"
  using assms
  by (auto simp: onEditorMouseDown_def onEditorMouseUp_def Let_def split: option.splits)

text \<open>Witness for C10: a right click in the gutter of line 5, then a mouse-up there.\<close>

theorem mouseDown_not_left_or_no_range_witness:
  "\<not> leftButton ((exGutterClick 5)\<lparr>leftButton := False\<rparr>) \<and>
   mouseDownInfo (fst (onEditorMouseDown exController ((exGutterClick 5)\<lparr>leftButton := False\<rparr>)))
     = None \<and>
   settle exLookup [] exRegions
     (snd (onEditorMouseUp
            (fst (onEditorMouseDown exController ((exGutterClick 5)\<lparr>leftButton := False\<rparr>)))
            (exGutterClick 5)))
     = Inr (exRegions, [])"
proof -
  have h: "\<not> leftButton ((exGutterClick 5)\<lparr>leftButton := False\<rparr>)"
    by simp
  then have "\<not> leftButton ((exGutterClick 5)\<lparr>leftButton := False\<rparr>) \<or>
      targetRange ((exGutterClick 5)\<lparr>leftButton := False\<rparr>) = None"
    by blast
  from mouseDown_not_left_or_no_range [OF this, of exController "exGutterClick 5" exLookup "[]" exRegions] h
  show ?thesis
    by blast
qed

text \<open>
  Claim C8, as amended. Every mouse-down first clears the gesture state, whether or not the
  event qualifies: the state after a mouse-down does not depend on the state before, and it
  is empty or the gesture of that very event. A mouse-up leaves the controller, and so the
  gesture state, as it was: the state stays recorded until the next mouse-down.
\<close>

theorem gesture_state_lifetime:
  "mouseDownInfo (fst (onEditorMouseDown (c\<lparr>mouseDownInfo := old\<rparr>) e)) =
     mouseDownInfo (fst (onEditorMouseDown c e)) \<and>
   (case mouseDownInfo (fst (onEditorMouseDown c e)) of
      None \<Rightarrow> True
    | Some info \<Rightarrow> map_option startLineNumber (targetRange e) = Some (lineNumber info)) \<and>
   fst (onEditorMouseUp c e') = c"
  by (auto simp: onEditorMouseDown_def onEditorMouseUp_def getFoldingModel_then_def Let_def
      split: option.splits if_splits MouseTargetType.splits)

text \<open>Counterexample to C8 as stated: after a qualifying mouse-down on line 5 and its
  accepted mouse-up, the gesture state is still recorded, and a second mouse-up, with no
  mouse-down in between, is accepted again.\<close>

theorem gesture_state_survives_mouseUp:
  "snd (onEditorMouseUp (fst (onEditorMouseDown exController (exGutterClick 5))) (exGutterClick 5))
     = Inr (Some (MouseUpCallback 5 True)) \<and>
   mouseDownInfo
     (fst (onEditorMouseUp (fst (onEditorMouseDown exController (exGutterClick 5))) (exGutterClick 5)))
     = Some \<lparr>lineNumber = 5, iconClicked = True\<rparr> \<and>
   snd (onEditorMouseUp
          (fst (onEditorMouseUp (fst (onEditorMouseDown exController (exGutterClick 5)))
                  (exGutterClick 5)))
          (exGutterClick 5))
     = Inr (Some (MouseUpCallback 5 True))"
  by (simp add: ex_down_gutter ex_up_gutter)

section \<open>Toggling a list of regions\<close>

lemma length_toggleRegion: "length (toggleRegion fm r) = length fm"
  by (simp add: toggleRegion_def)

lemma length_toggleCollapseState: "length (toggleCollapseState fm rs) = length fm"
  unfolding toggleCollapseState_def
  by (induction rs arbitrary: fm) (simp_all add: length_toggleRegion)

lemma nth_toggleRegion:
  "i < length fm \<Longrightarrow>
   toggleRegion fm r ! i =
     (if i = r then (fm ! i)\<lparr>isCollapsed := \<not> isCollapsed (fm ! i)\<rparr> else fm ! i)"
  by (simp add: toggleRegion_def)

lemma nth_toggleCollapseState:
  "distinct rs \<Longrightarrow> i < length fm \<Longrightarrow>
   toggleCollapseState fm rs ! i =
     (if i \<in> set rs then (fm ! i)\<lparr>isCollapsed := \<not> isCollapsed (fm ! i)\<rparr> else fm ! i)"
  unfolding toggleCollapseState_def
proof (induction rs arbitrary: fm)
  case Nil
  then show ?case by simp
next
  case (Cons r rs)
  have d: "distinct rs" and nr: "r \<notin> set rs"
    using Cons.prems(1) by simp_all
  have len: "i < length (toggleRegion fm r)"
    using Cons.prems(2) by (simp add: length_toggleRegion)
  have "foldl toggleRegion fm (r # rs) ! i = foldl toggleRegion (toggleRegion fm r) rs ! i"
    by simp
  also have "\<dots> = (if i \<in> set rs
        then (toggleRegion fm r ! i)\<lparr>isCollapsed := \<not> isCollapsed (toggleRegion fm r ! i)\<rparr>
        else toggleRegion fm r ! i)"
    using Cons.IH [OF d len] .
  also have "\<dots> = (if i \<in> set (r # rs)
        then (fm ! i)\<lparr>isCollapsed := \<not> isCollapsed (fm ! i)\<rparr> else fm ! i)"
    using nr Cons.prems(2) by (auto simp: nth_toggleRegion)
  finally show ?case .
qed

section \<open>Cursor reveal\<close>

lemma distinct_getAllRegionsAtLine: "distinct (getAllRegionsAtLine fm ln p)"
  by (simp add: getAllRegionsAtLine_def)

lemma set_getAllRegionsAtLine:
  "set (getAllRegionsAtLine fm ln p) = {i. i < length fm \<and> containsLine (fm ! i) ln \<and> p (fm ! i)}"
  by (auto simp: getAllRegionsAtLine_def)

lemma reveal_step_nth:
  assumes "i < length fm"
  shows "toggleCollapseState fm
           (getAllRegionsAtLine fm ln
              (\<lambda>r. isCollapsed r \<and> ln > startLineNumber (regionRange r))) ! i =
         (if isCollapsed (fm ! i) \<and> strictlyInside (fm ! i) ln
          then (fm ! i)\<lparr>isCollapsed := False\<rparr> else fm ! i)"
  using assms
  by (auto simp: nth_toggleCollapseState distinct_getAllRegionsAtLine set_getAllRegionsAtLine
      containsLine_def strictlyInside_def)

lemma not_hidden_no_region:
  assumes "\<not> isHidden fm ln" and "i < length fm"
  shows "\<not> (isCollapsed (fm ! i) \<and> strictlyInside (fm ! i) ln)"
  using assms
  by (auto simp: isHidden_def list_ex_iff hides_def)

lemma length_revealCursorCallback: "length (revealCursorCallback fm sels) = length fm"
  by (induction fm sels rule: revealCursorCallback.induct)
     (simp_all add: Let_def length_toggleCollapseState)

lemma strictlyInside_open [simp]:
  "strictlyInside (r\<lparr>isCollapsed := b\<rparr>) ln = strictlyInside r ln"
  by (simp add: strictlyInside_def)

lemma nth_revealCursorCallback:
  "i < length fm \<Longrightarrow>
   revealCursorCallback fm sels ! i =
     (if isCollapsed (fm ! i) \<and>
         (\<exists>s \<in> set sels. strictlyInside (fm ! i) (selectionStartLineNumber s))
      then (fm ! i)\<lparr>isCollapsed := False\<rparr> else fm ! i)"
proof (induction fm sels rule: revealCursorCallback.induct)
  case (1 fm)
  then show ?case by simp
next
  case (2 fm sel selections)
  let ?ln = "selectionStartLineNumber sel"
  let ?fm1 = "toggleCollapseState fm
      (getAllRegionsAtLine fm ?ln (\<lambda>r. isCollapsed r \<and> ?ln > startLineNumber (regionRange r)))"
  show ?case
  proof (cases "isHidden fm ?ln")
    case True
    have len: "i < length ?fm1"
      using "2.prems" by (simp add: length_toggleCollapseState)
    have step: "?fm1 ! i = (if isCollapsed (fm ! i) \<and> strictlyInside (fm ! i) ?ln
          then (fm ! i)\<lparr>isCollapsed := False\<rparr> else fm ! i)"
      using "2.prems" by (rule reveal_step_nth)
    have "revealCursorCallback fm (sel # selections) ! i = revealCursorCallback ?fm1 selections ! i"
      using True by (simp add: Let_def)
    also have "\<dots> = (if isCollapsed (?fm1 ! i) \<and>
         (\<exists>s \<in> set selections. strictlyInside (?fm1 ! i) (selectionStartLineNumber s))
      then (?fm1 ! i)\<lparr>isCollapsed := False\<rparr> else ?fm1 ! i)"
      using "2.IH"(1) [OF refl True refl len] .
    also have "\<dots> = (if isCollapsed (fm ! i) \<and>
         (\<exists>s \<in> set (sel # selections). strictlyInside (fm ! i) (selectionStartLineNumber s))
      then (fm ! i)\<lparr>isCollapsed := False\<rparr> else fm ! i)"
      unfolding step by auto
    finally show ?thesis .
  next
    case False
    have none: "\<not> (isCollapsed (fm ! i) \<and> strictlyInside (fm ! i) ?ln)"
      using False "2.prems" by (rule not_hidden_no_region)
    have "revealCursorCallback fm (sel # selections) ! i = revealCursorCallback fm selections ! i"
      using False by (simp add: Let_def)
    also have "\<dots> = (if isCollapsed (fm ! i) \<and>
         (\<exists>s \<in> set selections. strictlyInside (fm ! i) (selectionStartLineNumber s))
      then (fm ! i)\<lparr>isCollapsed := False\<rparr> else fm ! i)"
      using "2.IH"(2) [OF refl False "2.prems"] .
    also have "\<dots> = (if isCollapsed (fm ! i) \<and>
         (\<exists>s \<in> set (sel # selections). strictlyInside (fm ! i) (selectionStartLineNumber s))
      then (fm ! i)\<lparr>isCollapsed := False\<rparr> else fm ! i)"
      using none by auto
    finally show ?thesis .
  qed
qed

text \<open>
  Claim C7. When the reveal callback runs on the resolved folding model \<open>fm\<close> with the
  editor's selections, it reveals no line and leaves a model of the same regions in which
  a region is opened exactly when it was collapsed and the selection-start line of some
  selection lies strictly below its start line and within it; every other region is as it
  was. When no selection starts on a hidden line, the model is unchanged. The loop is the
  iteration of its single step, and the step for a selection at line \<open>L\<close> opens, when \<open>L\<close>
  is hidden, exactly the collapsed regions that enclose \<open>L\<close> and start strictly above it,
  all of them, and changes nothing when \<open>L\<close> is not hidden.
\<close>

theorem revealCursor_opens_enclosing:
  assumes "settle G sels fm (snd (revealCursor c)) = Inr (fm', revealed)"
  shows "length fm' = length fm \<and> revealed = [] \<and>
         (\<forall>i<length fm. fm' ! i =
            (if isCollapsed (fm ! i) \<and>
                (\<exists>s \<in> set sels. strictlyInside (fm ! i) (selectionStartLineNumber s))
             then (fm ! i)\<lparr>isCollapsed := False\<rparr> else fm ! i)) \<and>
         ((\<forall>s \<in> set sels. \<not> isHidden fm (selectionStartLineNumber s)) \<longrightarrow> fm' = fm) \<and>
         (\<forall>fm0 sel rest.
            revealCursorCallback fm0 (sel # rest) =
              revealCursorCallback (revealCursorCallback fm0 [sel]) rest) \<and>
         (\<forall>fm0 sel. \<forall>i<length fm0.
            revealCursorCallback fm0 [sel] ! i =
              (if isHidden fm0 (selectionStartLineNumber sel) \<and>
                  containsLine (fm0 ! i) (selectionStartLineNumber sel) \<and>
                  isCollapsed (fm0 ! i) \<and>
                  startLineNumber (regionRange (fm0 ! i)) < selectionStartLineNumber sel
               then (fm0 ! i)\<lparr>isCollapsed := False\<rparr> else fm0 ! i))"
proof -
  have run: "fm' = revealCursorCallback fm sels" and rev: "revealed = []"
    using assms
    by (auto simp: revealCursor_def getFoldingModel_then_def split: option.splits)
  have len: "length fm' = length fm"
    unfolding run by (rule length_revealCursorCallback)
  have nth: "\<forall>i<length fm. fm' ! i =
            (if isCollapsed (fm ! i) \<and>
                (\<exists>s \<in> set sels. strictlyInside (fm ! i) (selectionStartLineNumber s))
             then (fm ! i)\<lparr>isCollapsed := False\<rparr> else fm ! i)"
    unfolding run using nth_revealCursorCallback by blast
  have visible: "(\<forall>s \<in> set sels. \<not> isHidden fm (selectionStartLineNumber s)) \<longrightarrow> fm' = fm"
  proof
    assume v: "\<forall>s \<in> set sels. \<not> isHidden fm (selectionStartLineNumber s)"
    have "\<forall>i<length fm. fm' ! i = fm ! i"
    proof (intro allI impI)
      fix i assume i: "i < length fm"
      have "\<not> (isCollapsed (fm ! i) \<and>
                (\<exists>s \<in> set sels. strictlyInside (fm ! i) (selectionStartLineNumber s)))"
        using v i not_hidden_no_region by blast
      then show "fm' ! i = fm ! i"
        using nth i by simp
    qed
    then show "fm' = fm"
      using len by (simp add: nth_equalityI)
  qed
  have iter: "\<forall>fm0 sel rest.
            revealCursorCallback fm0 (sel # rest) =
              revealCursorCallback (revealCursorCallback fm0 [sel]) rest"
    by (simp add: Let_def)
  have single: "\<forall>fm0 sel. \<forall>i<length fm0.
            revealCursorCallback fm0 [sel] ! i =
              (if isHidden fm0 (selectionStartLineNumber sel) \<and>
                  containsLine (fm0 ! i) (selectionStartLineNumber sel) \<and>
                  isCollapsed (fm0 ! i) \<and>
                  startLineNumber (regionRange (fm0 ! i)) < selectionStartLineNumber sel
               then (fm0 ! i)\<lparr>isCollapsed := False\<rparr> else fm0 ! i)"
  proof (intro allI impI)
    fix fm0 :: folding_model and sel :: selection and i
    assume i: "i < length fm0"
    show "revealCursorCallback fm0 [sel] ! i =
              (if isHidden fm0 (selectionStartLineNumber sel) \<and>
                  containsLine (fm0 ! i) (selectionStartLineNumber sel) \<and>
                  isCollapsed (fm0 ! i) \<and>
                  startLineNumber (regionRange (fm0 ! i)) < selectionStartLineNumber sel
               then (fm0 ! i)\<lparr>isCollapsed := False\<rparr> else fm0 ! i)"
      using i reveal_step_nth [OF i, of "selectionStartLineNumber sel"]
      by (auto simp: Let_def strictlyInside_def containsLine_def)
  qed
  from len rev nth visible iter single show ?thesis
    by blast
qed

text \<open>Witness for C7: with the cursor on line 15, inside the collapsed region of lines 10
  to 20, the callback opens that region and leaves the other one as it was.\<close>

theorem revealCursor_opens_enclosing_witness:
  "settle exLookup (getSelections (editor exController)) exRegions (snd (revealCursor exController))
     = Inr (exFresh, []) \<and>
   1 < length exRegions \<and> isCollapsed (exRegions ! 1) \<and>
   selectionStartLineNumber (\<lparr>selectionStartLineNumber = 15\<rparr>) = 15 \<and>
   \<lparr>selectionStartLineNumber = 15\<rparr> \<in> set (getSelections (editor exController)) \<and>
   strictlyInside (exRegions ! 1) 15 \<and>
   exFresh ! 1 = (exRegions ! 1)\<lparr>isCollapsed := False\<rparr> \<and>
   exFresh ! 0 = exRegions ! 0"
proof -
  note t = revealCursor_opens_enclosing [OF ex_reveal_settle]
  have l0: "0 < length exRegions" and l1: "1 < length exRegions"
    by (simp_all add: ex_regions_length)
  have sel: "\<lparr>selectionStartLineNumber = 15\<rparr> \<in> set (getSelections (editor exController))"
    by (simp add: exController_def exEditor_def)
  have inside: "strictlyInside (exRegions ! 1) 15"
    by (simp add: strictlyInside_def exRegions_def exRange_def)
  have c: "isCollapsed (exRegions ! 1)"
    using ex_region_1 by simp
  have ex: "isCollapsed (exRegions ! 1) \<and>
      (\<exists>s \<in> set (getSelections (editor exController)).
         strictlyInside (exRegions ! 1) (selectionStartLineNumber s))"
    using sel inside c by force
  have n1: "exFresh ! 1 = (exRegions ! 1)\<lparr>isCollapsed := False\<rparr>"
    using t l1 ex by simp
  have n0: "exFresh ! 0 = exRegions ! 0"
    using t l0 ex_region_0 by simp
  have s15: "selectionStartLineNumber (\<lparr>selectionStartLineNumber = 15\<rparr>) = 15"
    by simp
  from ex_reveal_settle l1 c s15 sel inside n1 n0 show ?thesis
    by blast
qed

section \<open>View state round trip\<close>











section \<open>View state: rejected and detached\<close>

text \<open>
  Claim C4. When the state is absent, its \<^verbatim>\<open>collapsedIndexes\<close> is not an array or is the
  empty array, or its \<^verbatim>\<open>lineCount\<close> differs from the line count of the attached model,
  \<^verbatim>\<open>restoreViewState\<close> returns without raising and registers no callback: the controller
  and the folding model are unchanged.
\<close>

theorem restoreViewState_rejects:
  assumes "state = None \<or>
      (\<exists>s. state = Some s \<and>
         ((\<forall>indexes. collapsedIndexes s \<noteq> JArray indexes) \<or>
          collapsedIndexes s = JArray [] \<or>
          (\<forall>model. getModel (editor c) = Some model \<longrightarrow>
             lineCount s \<noteq> JNumber (getLineCount model))))"
  shows "restoreViewState c state = (c, Inr None) \<and>
         settle G sels fm (snd (restoreViewState c state)) = Inr (fm, [])"
  using assms
  by (auto simp: restoreViewState_def split: option.splits jsval.splits)

text \<open>Witness for C4: an absent state, a state whose indexes are no array, a state with
  no index, and a state saved for 29 lines restored on the buffer of 30 lines.\<close>

theorem restoreViewState_rejects_witness:
  "settle exLookup [] exRegions (snd (restoreViewState exController None)) = Inr (exRegions, []) \<and>
   settle exLookup [] exRegions
     (snd (restoreViewState exController (Some (ViewState JOther (JNumber 30)))))
     = Inr (exRegions, []) \<and>
   settle exLookup [] exRegions
     (snd (restoreViewState exController (Some (ViewState (JArray []) (JNumber 30)))))
     = Inr (exRegions, []) \<and>
   getModel (editor exController) = Some exModel \<and> JNumber 29 \<noteq> JNumber (getLineCount exModel) \<and>
   settle exLookup [] exRegions
     (snd (restoreViewState exController (Some (ViewState (JArray [5]) (JNumber 29)))))
     = Inr (exRegions, [])"
proof -
  have 1: "settle exLookup [] exRegions (snd (restoreViewState exController None))
      = Inr (exRegions, [])"
    using restoreViewState_rejects [of None exController exLookup "[]" exRegions] by blast
  have "\<forall>indexes. collapsedIndexes (ViewState JOther (JNumber 30)) \<noteq> JArray indexes"
    by simp
  then have 2: "settle exLookup [] exRegions
      (snd (restoreViewState exController (Some (ViewState JOther (JNumber 30)))))
      = Inr (exRegions, [])"
    using restoreViewState_rejects
      [of "Some (ViewState JOther (JNumber 30))" exController exLookup "[]" exRegions]
    by blast
  have "collapsedIndexes (ViewState (JArray []) (JNumber 30)) = JArray []"
    by simp
  then have 3: "settle exLookup [] exRegions
      (snd (restoreViewState exController (Some (ViewState (JArray []) (JNumber 30)))))
      = Inr (exRegions, [])"
    using restoreViewState_rejects
      [of "Some (ViewState (JArray []) (JNumber 30))" exController exLookup "[]" exRegions]
    by blast
  have d: "JNumber 29 \<noteq> JNumber (getLineCount exModel)"
    by (simp add: ex_lineCount)
  then have "\<forall>model. getModel (editor exController) = Some model \<longrightarrow>
      lineCount (ViewState (JArray [5]) (JNumber 29)) \<noteq> JNumber (getLineCount model)"
    by (simp add: ex_getModel)
  then have 4: "settle exLookup [] exRegions
      (snd (restoreViewState exController (Some (ViewState (JArray [5]) (JNumber 29)))))
      = Inr (exRegions, [])"
    using restoreViewState_rejects
      [of "Some (ViewState (JArray [5]) (JNumber 29))" exController exLookup "[]" exRegions]
    by blast
  from 1 2 3 4 d ex_getModel show ?thesis
    by blast
qed

text \<open>
  Claim C9. With no model attached to the editor, \<^verbatim>\<open>saveViewState\<close> returns the empty
  object, \<^verbatim>\<open>restoreViewState\<close> returns without raising, registers no callback and changes
  neither controller nor folding model, and \<^verbatim>\<open>onModelChanged\<close> only empties
  \<^verbatim>\<open>localToDispose\<close>: it creates no folding model and pushes no subscription.
\<close>

theorem no_model_no_op:
  assumes "getModel (editor c) = None"
  shows "saveViewState c = Inr EmptyObject \<and>
         restoreViewState c state = (c, Inr None) \<and>
         settle G sels fm (snd (restoreViewState c state)) = Inr (fm, []) \<and>
         onModelChanged c = c\<lparr>localToDispose := []\<rparr>"
  using assms
  by (simp add: saveViewState_def restoreViewState_def onModelChanged_def)

text \<open>Witness for C9: the example controller with its model detached.\<close>

theorem no_model_no_op_witness:
  "getModel (editor exDetached) = None \<and>
   saveViewState exDetached = Inr EmptyObject \<and>
   restoreViewState exDetached (Some (ViewState (JArray [10]) (JNumber 30))) = (exDetached, Inr None) \<and>
   localToDispose (onModelChanged exDetached) = [] \<and>
   foldingModel (onModelChanged exDetached) = foldingModel exDetached"
proof -
  note t = no_model_no_op [OF ex_detached_model, of "Some (ViewState (JArray [10]) (JNumber 30))"
      exLookup "[]" exRegions]
  from t have "onModelChanged exDetached = exDetached\<lparr>localToDispose := []\<rparr>"
    by blast
  then have "localToDispose (onModelChanged exDetached) = []"
    "foldingModel (onModelChanged exDetached) = foldingModel exDetached"
    by simp_all
  with t ex_detached_model show ?thesis
    by blast
qed

section \<open>Computing the ranges\<close>

lemma nestingLevel_le_foldr_max:
  "r \<in> set ranges \<Longrightarrow> nestingLevel r \<le> foldr max (map nestingLevel ranges) 0"
  by (induction ranges) auto

lemma countBelow_all:
  assumes "foldr max (map nestingLevel ranges) 0 < d"
  shows "filter (\<lambda>r. nestingLevel r < d) ranges = ranges"
proof -
  have "\<forall>r \<in> set ranges. nestingLevel r < d"
    using assms nestingLevel_le_foldr_max by fastforce
  then show ?thesis by simp
qed

lemma findMaxIndent_maximal:
  "findMaxIndent ranges maxEntries D < d' \<Longrightarrow> d' \<le> D \<Longrightarrow> maxEntries < countBelow ranges d'"
proof (induction D)
  case 0
  then show ?case by simp
next
  case (Suc D)
  show ?case
  proof (cases "countBelow ranges (Suc D) \<le> maxEntries")
    case True
    then show ?thesis using Suc.prems by simp
  next
    case False
    show ?thesis
    proof (cases "d' = Suc D")
      case True
      then show ?thesis using False by simp
    next
      case ne: False
      then have "d' \<le> D" using Suc.prems(2) by simp
      moreover have "findMaxIndent ranges maxEntries D < d'"
        using Suc.prems(1) False by simp
      ultimately show ?thesis using Suc.IH by blast
    qed
  qed
qed

lemma limitByIndent_bound:
  "\<exists>d. limitByIndent ranges maxEntries = filter (\<lambda>r. nestingLevel r < d) ranges \<and>
       (\<forall>d'. d < d' \<longrightarrow> length ranges \<le> maxEntries \<or> maxEntries < countBelow ranges d')"
proof (cases "length ranges \<le> maxEntries")
  case True
  let ?D = "Suc (foldr max (map nestingLevel ranges) 0)"
  have "limitByIndent ranges maxEntries = filter (\<lambda>r. nestingLevel r < ?D) ranges"
    using True countBelow_all [of ranges ?D] by (simp add: limitByIndent_def)
  then show ?thesis using True by blast
next
  case False
  let ?D = "Suc (foldr max (map nestingLevel ranges) 0)"
  let ?d = "findMaxIndent ranges maxEntries ?D"
  have eq: "limitByIndent ranges maxEntries = filter (\<lambda>r. nestingLevel r < ?d) ranges"
    using False by (simp add: limitByIndent_def Let_def)
  have "\<forall>d'. ?d < d' \<longrightarrow> maxEntries < countBelow ranges d'"
  proof (intro allI impI)
    fix d' assume lt: "?d < d'"
    show "maxEntries < countBelow ranges d'"
    proof (cases "d' \<le> ?D")
      case True
      with lt show ?thesis by (rule findMaxIndent_maximal)
    next
      case gt: False
      then have "foldr max (map nestingLevel ranges) 0 < d'" by simp
      then have "countBelow ranges d' = length ranges"
        using countBelow_all [of ranges d'] by (simp add: countBelow_def)
      then show ?thesis using False by simp
    qed
  qed
  with eq show ?thesis by blast
qed

lemma countBelow_findMaxIndent:
  "countBelow ranges (findMaxIndent ranges maxEntries d) \<le> maxEntries"
  by (induction d) (simp_all add: countBelow_def)

lemma limitByIndent_within: "length ranges \<le> maxEntries \<Longrightarrow> limitByIndent ranges maxEntries = ranges"
  by (simp add: limitByIndent_def)

lemma limitByIndent_favors_shallower:
  assumes "r \<in> set (limitByIndent ranges maxEntries)" and "r' \<in> set ranges"
    and "r' \<notin> set (limitByIndent ranges maxEntries)"
  shows "nestingLevel r < nestingLevel r'"
  using assms
  by (auto simp: limitByIndent_def Let_def split: if_splits)

lemma length_limitByIndent: "length (limitByIndent ranges maxEntries) \<le> maxEntries"
  using countBelow_findMaxIndent [of ranges maxEntries]
  by (simp add: limitByIndent_def Let_def countBelow_def)

lemma foldr_max_replicate:
  "foldr max (replicate n (x::nat)) y = (if n = 0 then y else max x y)"
  by (induction n) auto

lemma ex_candidates_length: "length (exStrategy exModel) = 6000"
  by (simp add: exStrategy_def exCandidates_def)

lemma ex_levels: "nestingLevel exShallow = 0" "nestingLevel exDeep = 1"
  by (simp_all add: exShallow_def exDeep_def exIndentRange_def)

lemma ex_countBelow:
  "countBelow exCandidates (Suc (Suc 0)) = 6000" "countBelow exCandidates (Suc 0) = 5000"
  by (simp_all add: countBelow_def exCandidates_def filter_replicate ex_levels)

lemma ex_limitByIndent_candidates: "limitByIndent exCandidates 5000 = replicate 5000 exShallow"
proof -
  have mx: "foldr max (map nestingLevel exCandidates) 0 = Suc 0"
    by (simp add: exCandidates_def foldr_max_replicate ex_levels del: foldr_replicate)
  have fm: "findMaxIndent exCandidates 5000 (Suc (Suc 0)) = Suc 0"
    by (simp add: ex_countBelow)
  have len: "\<not> length exCandidates \<le> 5000"
    by (simp add: exCandidates_def)
  have "limitByIndent exCandidates 5000 = filter (\<lambda>r. nestingLevel r < Suc 0) exCandidates"
    using len by (simp add: limitByIndent_def Let_def mx ex_countBelow)
  also have "\<dots> = replicate 5000 exShallow"
    by (simp add: exCandidates_def filter_replicate ex_levels)
  finally show ?thesis .
qed

lemma ex_computeRanges_candidates:
  "computeRanges exStrategy exController = replicate 5000 exShallow"
proof -
  have "sorted (map startLineNumber (replicate 5000 exShallow))"
    by simp
  then have "sort_key startLineNumber (replicate 5000 exShallow) = replicate 5000 exShallow"
    by (rule sort_key_id_if_sorted)
  then show ?thesis
    by (simp add: computeRanges_def ex_getModel exStrategy_def MAX_FOLDING_REGIONS_def
        ex_limitByIndent_candidates)
qed

lemma ex_computeRanges_small:
  "computeRanges exSmallStrategy exController =
     [exIndentRange 1 9 0, exIndentRange 2 5 1, exIndentRange 6 8 1]"
  by (simp add: computeRanges_def ex_getModel exSmallStrategy_def MAX_FOLDING_REGIONS_def
      limitByIndent_def exIndentRange_def)

text \<open>
  Claim C6. For every controller and every result of the folding strategy,
  \<^verbatim>\<open>computeRanges\<close> returns at most 5000 ranges, sorted in ascending order of
  \<^verbatim>\<open>startLineNumber\<close>. With no model attached it returns none. With a model attached
  it returns the candidates of the strategy below some nesting bound, each as often as the
  strategy gave it: all of them when they are at most 5000; otherwise the bound is the
  deepest one whose candidates fit (the candidates below any deeper bound are more than
  5000), so every range kept is of a strictly shallower nesting level than every candidate
  dropped. So it is for 6000 candidates.
\<close>

theorem computeRanges_capped_sorted:
  "length (computeRanges strategy c) \<le> 5000 \<and>
   sorted (map startLineNumber (computeRanges strategy c)) \<and>
   (getModel (editor c) = None \<longrightarrow> computeRanges strategy c = []) \<and>
   (\<forall>editorModel. getModel (editor c) = Some editorModel \<longrightarrow>
      (length (strategy editorModel) \<le> 5000 \<longrightarrow>
         mset (computeRanges strategy c) = mset (strategy editorModel)) \<and>
      (\<exists>d. mset (computeRanges strategy c) =
              mset (filter (\<lambda>r. nestingLevel r < d) (strategy editorModel)) \<and>
           (\<forall>d'. d < d' \<longrightarrow>
              length (strategy editorModel) \<le> 5000 \<or>
              5000 < length (filter (\<lambda>r. nestingLevel r < d') (strategy editorModel)))) \<and>
      (\<forall>r \<in> set (computeRanges strategy c). \<forall>r' \<in> set (strategy editorModel).
         r' \<notin> set (computeRanges strategy c) \<longrightarrow> nestingLevel r < nestingLevel r'))"
proof -
  have len: "length (computeRanges strategy c) \<le> 5000"
    using length_limitByIndent [of _ MAX_FOLDING_REGIONS]
    by (simp add: computeRanges_def MAX_FOLDING_REGIONS_def split: option.splits)
  have srt: "sorted (map startLineNumber (computeRanges strategy c))"
    by (simp add: computeRanges_def split: option.splits)
  have none: "getModel (editor c) = None \<longrightarrow> computeRanges strategy c = []"
    by (simp add: computeRanges_def)
  have some: "\<forall>editorModel. getModel (editor c) = Some editorModel \<longrightarrow>
      (length (strategy editorModel) \<le> 5000 \<longrightarrow>
         mset (computeRanges strategy c) = mset (strategy editorModel)) \<and>
      (\<exists>d. mset (computeRanges strategy c) =
              mset (filter (\<lambda>r. nestingLevel r < d) (strategy editorModel)) \<and>
           (\<forall>d'. d < d' \<longrightarrow>
              length (strategy editorModel) \<le> 5000 \<or>
              5000 < length (filter (\<lambda>r. nestingLevel r < d') (strategy editorModel)))) \<and>
      (\<forall>r \<in> set (computeRanges strategy c). \<forall>r' \<in> set (strategy editorModel).
         r' \<notin> set (computeRanges strategy c) \<longrightarrow> nestingLevel r < nestingLevel r')"
  proof (intro allI impI)
    fix editorModel assume m: "getModel (editor c) = Some editorModel"
    let ?cands = "strategy editorModel"
    have cr: "computeRanges strategy c = sort_key startLineNumber (limitByIndent ?cands 5000)"
      using m by (simp add: computeRanges_def MAX_FOLDING_REGIONS_def)
    have ms: "mset (computeRanges strategy c) = mset (limitByIndent ?cands 5000)"
      unfolding cr by simp
    have st: "set (computeRanges strategy c) = set (limitByIndent ?cands 5000)"
      unfolding cr by simp
    have within: "length ?cands \<le> 5000 \<longrightarrow> mset (computeRanges strategy c) = mset ?cands"
      using ms by (simp add: limitByIndent_within)
    obtain d where d: "limitByIndent ?cands 5000 = filter (\<lambda>r. nestingLevel r < d) ?cands"
      and mx: "\<forall>d'. d < d' \<longrightarrow> length ?cands \<le> 5000 \<or> 5000 < length (filter (\<lambda>r. nestingLevel r < d') ?cands)"
      using limitByIndent_bound [of ?cands 5000] unfolding countBelow_def by blast
    have bound: "\<exists>d. mset (computeRanges strategy c) =
              mset (filter (\<lambda>r. nestingLevel r < d) ?cands) \<and>
           (\<forall>d'. d < d' \<longrightarrow> length ?cands \<le> 5000 \<or> 5000 < length (filter (\<lambda>r. nestingLevel r < d') ?cands))"
      using ms d mx by metis
    have fav: "\<forall>r \<in> set (computeRanges strategy c). \<forall>r' \<in> set ?cands.
         r' \<notin> set (computeRanges strategy c) \<longrightarrow> nestingLevel r < nestingLevel r'"
      unfolding st using limitByIndent_favors_shallower by blast
    from within bound fav
    show "(length ?cands \<le> 5000 \<longrightarrow> mset (computeRanges strategy c) = mset ?cands) \<and>
      (\<exists>d. mset (computeRanges strategy c) =
              mset (filter (\<lambda>r. nestingLevel r < d) ?cands) \<and>
           (\<forall>d'. d < d' \<longrightarrow> length ?cands \<le> 5000 \<or> 5000 < length (filter (\<lambda>r. nestingLevel r < d') ?cands))) \<and>
      (\<forall>r \<in> set (computeRanges strategy c). \<forall>r' \<in> set ?cands.
         r' \<notin> set (computeRanges strategy c) \<longrightarrow> nestingLevel r < nestingLevel r')"
      by blast
  qed
  from len srt none some show ?thesis
    by blast
qed

text \<open>Witness for C6: of 6000 candidates, 5000 of nesting level 0 and 1000 of nesting level
  1, exactly the 5000 shallow ones are returned; three candidates within the cap are all
  returned, sorted by start line.\<close>

theorem computeRanges_capped_sorted_witness:
  "getModel (editor exController) = Some exModel \<and>
   length (exStrategy exModel) = 6000 \<and>
   computeRanges exStrategy exController = replicate 5000 exShallow \<and>
   length (computeRanges exStrategy exController) \<le> 5000 \<and>
   sorted (map startLineNumber (computeRanges exStrategy exController)) \<and>
   exShallow \<in> set (computeRanges exStrategy exController) \<and>
   exDeep \<in> set (exStrategy exModel) \<and>
   exDeep \<notin> set (computeRanges exStrategy exController) \<and>
   nestingLevel exShallow < nestingLevel exDeep \<and>
   length (exSmallStrategy exModel) \<le> 5000 \<and>
   computeRanges exSmallStrategy exController =
     [exIndentRange 1 9 0, exIndentRange 2 5 1, exIndentRange 6 8 1] \<and>
   mset (computeRanges exSmallStrategy exController) = mset (exSmallStrategy exModel)"
proof -
  note big = computeRanges_capped_sorted [of exStrategy exController]
  note small = computeRanges_capped_sorted [of exSmallStrategy exController]
  have len: "length (computeRanges exStrategy exController) \<le> 5000"
    and srt: "sorted (map startLineNumber (computeRanges exStrategy exController))"
    using big by blast+
  have kept: "exShallow \<in> set (computeRanges exStrategy exController)"
    by (simp add: ex_computeRanges_candidates)
  have cand: "exDeep \<in> set (exStrategy exModel)"
    by (simp add: exStrategy_def exCandidates_def)
  have neq: "exDeep \<noteq> exShallow"
    by (simp add: exShallow_def exDeep_def exIndentRange_def)
  have dropped: "exDeep \<notin> set (computeRanges exStrategy exController)"
    using neq by (simp add: ex_computeRanges_candidates)
  have fav: "\<forall>r \<in> set (computeRanges exStrategy exController). \<forall>r' \<in> set (exStrategy exModel).
         r' \<notin> set (computeRanges exStrategy exController) \<longrightarrow> nestingLevel r < nestingLevel r'"
    using big ex_getModel by blast
  have shallower: "nestingLevel exShallow < nestingLevel exDeep"
    using fav kept cand dropped by blast
  have slen: "length (exSmallStrategy exModel) \<le> 5000"
    by (simp add: exSmallStrategy_def)
  have all: "mset (computeRanges exSmallStrategy exController) = mset (exSmallStrategy exModel)"
    using small ex_getModel slen by blast
  from ex_getModel ex_candidates_length ex_computeRanges_candidates len srt kept cand dropped
    shallower slen ex_computeRanges_small all
  show ?thesis
    by blast
qed

end
